theory Spec2Isabelle
  imports Complex_Main
begin

section \<open>Python values\<close>

text \<open>
  The program is a Streamlit script (\<^verbatim>\<open>src/app.py\<close>). A Python \<^verbatim>\<open>str\<close> is modelled as a
  HOL \<^typ>\<open>string\<close>, one \<^typ>\<open>char\<close> per Python character; \<^verbatim>\<open>bytes\<close> as a list of
  numbers. An instance of \<^verbatim>\<open>Exception\<close> is its class together with its message, which is
  what \<^verbatim>\<open>str(e)\<close> returns.
\<close>

type_synonym bytes = "nat list"

datatype exc_class =
  Exception | ValueError | NameError | AttributeError | IndexError | KeyError
  | UnicodeDecodeError | LibraryError

datatype py_exception = Raised exc_class string

fun str_exc :: "py_exception \<Rightarrow> string" where
  "str_exc (Raised c msg) = msg"

text \<open>
  What the user interface is told to show during one run of the script, in order. Calls
  that only lay the page out (titles, headers, columns, spinners, the sidebar) are not
  recorded. \<open>LogError\<close> is a call of \<^verbatim>\<open>logger.error\<close>.
\<close>

datatype ui_event =
  Error string
  | Success string
  | Markdown string
  | TextArea string string
  | DownloadButton string string string
  | LogError string

section \<open>Document text extraction\<close>

text \<open>
  The parsers are library code (PyPDF2, python-docx, the UTF-8 codec): they are parameters.
  \<open>PdfReader\<close> either raises or gives the pages, each page standing for what its
  \<^verbatim>\<open>extract_text()\<close> does (raise, or return a string); \<open>Document\<close> either raises or gives
  the texts of the paragraphs. \<open>now_stamp\<close> is
  \<^verbatim>\<open>datetime.now().strftime('%Y%m%d_%H%M%S')\<close>.
\<close>

record library =
  PdfReader :: "bytes \<Rightarrow> py_exception + (py_exception + string) list"
  Document :: "bytes \<Rightarrow> py_exception + string list"
  decode_utf8 :: "bytes \<Rightarrow> py_exception + string"
  now_stamp :: string

text \<open>The loop \<^verbatim>\<open>for page in pdf.pages: text += page.extract_text() + "\n"\<close>.\<close>

fun pdf_pages_loop :: "(py_exception + string) list \<Rightarrow> string \<Rightarrow> py_exception + string" where
  "pdf_pages_loop [] text = Inr text"
| "pdf_pages_loop (page # pages) text =
     (case page of
        Inl e \<Rightarrow> Inl e
      | Inr t \<Rightarrow> pdf_pages_loop pages (text @ t @ [CHR 0x0A]))"

definition extract_text_from_pdf :: "library \<Rightarrow> bytes \<Rightarrow> ui_event list \<times> (py_exception + string)" where
  "extract_text_from_pdf L file_contents =
     (case (case PdfReader L file_contents of
              Inl e \<Rightarrow> Inl e
            | Inr pages \<Rightarrow> pdf_pages_loop pages []) of
        Inr text \<Rightarrow> ([], Inr text)
      | Inl e \<Rightarrow>
          ([LogError (''Error extracting PDF text: '' @ str_exc e)],
           Inl (Raised Exception
                  ''Failed to process PDF file. Please ensure the file is not corrupted.'')))"

text \<open>\<^verbatim>\<open>sep.join(parts)\<close> of Python.\<close>

fun join :: "string \<Rightarrow> string list \<Rightarrow> string" where
  "join sep [] = []"
| "join sep [x] = x"
| "join sep (x # y # ys) = x @ sep @ join sep (y # ys)"

definition extract_text_from_docx :: "library \<Rightarrow> bytes \<Rightarrow> ui_event list \<times> (py_exception + string)" where
  "extract_text_from_docx L file_contents =
     (case Document L file_contents of
        Inr paragraphs \<Rightarrow> ([], Inr (join [CHR 0x0A] paragraphs))
      | Inl e \<Rightarrow>
          ([LogError (''Error extracting DOCX text: '' @ str_exc e)],
           Inl (Raised Exception
                  ''Failed to process DOCX file. Please ensure the file is not corrupted.'')))"

record uploaded_file =
  file_bytes :: bytes
  file_type :: string

text \<open>
  \<^verbatim>\<open>process_uploaded_file\<close>: the result is \<open>None\<close> where the source returns \<^verbatim>\<open>None\<close>; every
  exception raised in the body is caught and shown with \<^verbatim>\<open>st.error\<close>.
\<close>

definition process_uploaded_file :: "library \<Rightarrow> uploaded_file \<Rightarrow> ui_event list \<times> string option" where
  "process_uploaded_file L uploaded =
     (let file_contents = file_bytes uploaded;
          ftype = file_type uploaded;
          (logged, r) =
            (if ftype = ''application/pdf'' then extract_text_from_pdf L file_contents
             else if ftype \<in> set [''application/msword'',
                       ''application/vnd.openxmlformats-officedocument.wordprocessingml.document'']
               then extract_text_from_docx L file_contents
             else if ftype = ''text/plain'' then ([], decode_utf8 L file_contents)
             else ([], Inl (Raised ValueError (''Unsupported file type: '' @ ftype))))
      in case r of
           Inl e \<Rightarrow> (logged @ [Error (''Error processing file: '' @ str_exc e)], None)
         | Inr text \<Rightarrow> (logged, Some text))"

section \<open>Values kept in the session\<close>

text \<open>
  The values of \<^verbatim>\<open>contract_data\<close> are strings, integers, floats and \<^verbatim>\<open>None\<close>. A float
  is kept as the decimal number that Python prints for it: \<open>PyFloat neg d e\<close> stands for
  \<open>d \<times> 10\<^sup>e\<close>, negated when \<open>neg\<close> holds, so \<^verbatim>\<open>5.0\<close> is \<open>PyFloat False 5 0\<close> and
  \<^verbatim>\<open>0.25\<close> is \<open>PyFloat False 25 (-2)\<close>. Infinities and NaN are left out.
\<close>

datatype pyfloat = PyFloat bool nat int

datatype pyval = PNone | PStr string | PInt int | PFloat pyfloat

text \<open>Truth value testing (\<^verbatim>\<open>not value\<close> is its negation).\<close>

fun truthy :: "pyval \<Rightarrow> bool" where
  "truthy PNone = False"
| "truthy (PStr s) = (s \<noteq> [])"
| "truthy (PInt i) = (i \<noteq> 0)"
| "truthy (PFloat (PyFloat neg d e)) = (d \<noteq> 0)"

definition digit_char :: "nat \<Rightarrow> char" where
  "digit_char n = ''0123456789'' ! (n mod 10)"

function str_nat :: "nat \<Rightarrow> string" where
  "str_nat n = (if n < 10 then [digit_char n] else str_nat (n div 10) @ [digit_char n])"
  by pat_completeness auto
termination
  by (relation "measure id") auto

definition str_int :: "int \<Rightarrow> string" where
  "str_int i = (if i < 0 then ''-'' @ str_nat (nat (- i)) else str_nat (nat i))"

text \<open>
  \<^verbatim>\<open>repr\<close> of a float: the shortest digits \<open>ds\<close> with the decimal point after the first
  \<open>decpt\<close> of them; exponent notation when \<open>decpt\<close> is below \<open>-3\<close> or above \<open>16\<close>, and
  \<^verbatim>\<open>.0\<close> after a number without fraction digits.
\<close>

function strip_zeros :: "nat \<Rightarrow> int \<Rightarrow> nat \<times> int" where
  "strip_zeros d e =
     (if d \<noteq> 0 \<and> d mod 10 = 0 then strip_zeros (d div 10) (e + 1) else (d, e))"
  by pat_completeness auto
termination
  by (relation "measure fst") auto

definition exponent_str :: "int \<Rightarrow> string" where
  "exponent_str x =
     (if x < 0 then ''-'' else ''+'') @
     (let s = str_nat (nat \<bar>x\<bar>) in if length s < 2 then ''0'' @ s else s)"

definition float_repr :: "pyfloat \<Rightarrow> string" where
  "float_repr x =
     (case x of PyFloat neg d0 e0 \<Rightarrow>
        (let (d, e) = strip_zeros d0 e0;
             ds = str_nat d;
             n = int (length ds);
             decpt = (if d = 0 then 1 else e + n);
             body =
               (if decpt \<le> - 4 \<or> decpt > 16
                  then take 1 ds @ (if n > 1 then ''.'' @ drop 1 ds else []) @ ''e'' @
                       exponent_str (decpt - 1)
                else if decpt \<le> 0 then ''0.'' @ replicate (nat (- decpt)) (CHR ''0'') @ ds
                else if decpt \<ge> n then ds @ replicate (nat (decpt - n)) (CHR ''0'') @ ''.0''
                else take (nat decpt) ds @ ''.'' @ drop (nat decpt) ds)
         in (if neg then ''-'' else []) @ body))"

text \<open>What an f-string puts in place of \<^verbatim>\<open>{value}\<close>.\<close>

fun py_str :: "pyval \<Rightarrow> string" where
  "py_str PNone = ''None''"
| "py_str (PStr s) = s"
| "py_str (PInt i) = str_int i"
| "py_str (PFloat x) = float_repr x"

text \<open>\<^verbatim>\<open>d.get(key)\<close>, which gives \<^verbatim>\<open>None\<close> for a missing key, and \<^verbatim>\<open>d.update(items)\<close>.\<close>

definition dict_get :: "(string \<rightharpoonup> pyval) \<Rightarrow> string \<Rightarrow> pyval" where
  "dict_get d k = (case d k of None \<Rightarrow> PNone | Some v \<Rightarrow> v)"

definition dict_update :: "(string \<rightharpoonup> pyval) \<Rightarrow> (string \<times> pyval) list \<Rightarrow> (string \<rightharpoonup> pyval)" where
  "dict_update d items = fold (\<lambda>(k, v) m. m(k \<mapsto> v)) items d"

section \<open>Session state\<close>

text \<open>
  \<^verbatim>\<open>st.session_state\<close> as Streamlit keeps it between runs: each of the three attributes
  may be missing. \<^verbatim>\<open>ContractPlatform.__init__\<close> fills in the missing ones; the handlers,
  which are methods of the constructed object, work on the completed state.
\<close>

record stored_session =
  stored_step :: "string option"
  stored_contract_data :: "(string \<rightharpoonup> pyval) option"
  stored_processing_status :: "pyval option"

record session =
  step :: string
  contract_data :: "string \<rightharpoonup> pyval"
  processing_status :: pyval

definition fresh_session :: stored_session where
  "fresh_session =
     \<lparr>stored_step = None, stored_contract_data = None, stored_processing_status = None\<rparr>"

definition init_session :: "stored_session \<Rightarrow> session" where
  "init_session st =
     \<lparr>step = (case stored_step st of None \<Rightarrow> ''home'' | Some v \<Rightarrow> v),
      contract_data = (case stored_contract_data st of None \<Rightarrow> Map.empty | Some d \<Rightarrow> d),
      processing_status = (case stored_processing_status st of None \<Rightarrow> PNone | Some v \<Rightarrow> v)\<rparr>"

definition store :: "session \<Rightarrow> stored_session" where
  "store s =
     \<lparr>stored_step = Some (step s), stored_contract_data = Some (contract_data s),
      stored_processing_status = Some (processing_status s)\<rparr>"

text \<open>
  What the widgets return in one run of the script: the buttons by their keys
  (\<open>continue_btn\<close> is the button "Continue to Application Form", \<open>submitted\<close> the form's
  submit button), the uploaded file, and the values of the form fields. The quantity
  widget is created with integer bounds and returns an integer, the price widget with
  float bounds and returns a float.
\<close>

record widgets =
  upload_btn :: bool
  form_btn :: bool
  back_upload :: bool
  uploaded_file :: "uploaded_file option"
  continue_btn :: bool
  back_form :: bool
  party1 :: string
  party2 :: string
  commodity :: string
  quantity :: int
  price :: pyfloat
  currency :: string
  template :: string
  submitted :: bool
  back_generate :: bool

text \<open>
  How a handler ends: it returns, or \<^verbatim>\<open>st.rerun()\<close> stops the script (Streamlit raises a
  control exception that is no \<^verbatim>\<open>Exception\<close>), or an exception leaves it uncaught.
\<close>

datatype ending = Finished | Rerun | Uncaught py_exception

record run =
  state :: session
  shown :: "ui_event list"
  ending :: ending

section \<open>Handlers\<close>

definition home :: "widgets \<Rightarrow> session \<Rightarrow> run" where
  "home w s =
     (let s1 = (if upload_btn w then s\<lparr>step := ''upload''\<rparr> else s);
          s2 = (if form_btn w then s1\<lparr>step := ''form''\<rparr> else s1)
      in \<lparr>state = s2, shown = [], ending = Finished\<rparr>)"

text \<open>
  The preview expression \<^verbatim>\<open>extracted_text[:1000] + "..." if len(extracted_text) > 1000 else
  extracted_text\<close>.
\<close>

definition preview :: "string \<Rightarrow> string" where
  "preview extracted_text =
     (if length extracted_text > 1000 then take 1000 extracted_text @ ''...''
      else extracted_text)"

definition upload_documents :: "library \<Rightarrow> widgets \<Rightarrow> session \<Rightarrow> run" where
  "upload_documents L w s =
     (if back_upload w then \<lparr>state = s\<lparr>step := ''home''\<rparr>, shown = [], ending = Rerun\<rparr>
      else
        (case uploaded_file w of
           None \<Rightarrow> \<lparr>state = s, shown = [], ending = Finished\<rparr>
         | Some f \<Rightarrow>
             (case process_uploaded_file L f of
                (evs, None) \<Rightarrow> \<lparr>state = s, shown = evs, ending = Finished\<rparr>
              | (evs, Some extracted_text) \<Rightarrow>
                  if extracted_text = [] then \<lparr>state = s, shown = evs, ending = Finished\<rparr>
                  else
                    (let s1 = s\<lparr>contract_data :=
                                  (contract_data s)(''extracted_text'' \<mapsto> PStr extracted_text)\<rparr>;
                         evs1 = evs @ [Success ''File processed successfully!'',
                                       TextArea ''Extracted Content'' (preview extracted_text)]
                     in if continue_btn w
                        then \<lparr>state = s1\<lparr>step := ''form''\<rparr>, shown = evs1, ending = Rerun\<rparr>
                        else \<lparr>state = s1, shown = evs1, ending = Finished\<rparr>))))"

definition required_fields :: "(string \<times> string) list" where
  "required_fields =
     [(''party1'', ''Party 1 Name''),
      (''party2'', ''Party 2 Name''),
      (''commodity'', ''Commodity Description''),
      (''quantity'', ''Quantity''),
      (''price'', ''Price per unit'')]"

text \<open>\<^verbatim>\<open>d[key]\<close> for each key of a list in turn; a missing key raises \<^verbatim>\<open>KeyError\<close>.\<close>

fun dict_getitems :: "(string \<times> string) list \<Rightarrow> string list \<Rightarrow> py_exception + string list" where
  "dict_getitems d [] = Inr []"
| "dict_getitems d (k # ks) =
     (case map_of d k of
        None \<Rightarrow> Inl (Raised KeyError k)
      | Some v \<Rightarrow> (case dict_getitems d ks of Inl e \<Rightarrow> Inl e | Inr vs \<Rightarrow> Inr (v # vs)))"

definition form_data :: "widgets \<Rightarrow> (string \<times> pyval) list" where
  "form_data w =
     [(''party1'', PStr (party1 w)),
      (''party2'', PStr (party2 w)),
      (''commodity'', PStr (commodity w)),
      (''quantity'', PInt (quantity w)),
      (''price'', PFloat (price w)),
      (''currency'', PStr (currency w)),
      (''template'', PStr (template w))]"

definition missing_fields :: "widgets \<Rightarrow> string list" where
  "missing_fields w =
     map fst (filter (\<lambda>(field, v). field \<in> set (map fst required_fields) \<and> \<not> truthy v)
                (form_data w))"

definition application_form :: "widgets \<Rightarrow> session \<Rightarrow> run" where
  "application_form w s =
     (if back_form w then \<lparr>state = s\<lparr>step := ''home''\<rparr>, shown = [], ending = Rerun\<rparr>
      else if submitted w then
        (if missing_fields w \<noteq> [] then
           (case dict_getitems required_fields (missing_fields w) of
              Inl e \<Rightarrow> \<lparr>state = s, shown = [], ending = Uncaught e\<rparr>
            | Inr labels \<Rightarrow>
                \<lparr>state = s,
                 shown = [Error (''Please fill in all required fields: '' @ join '', '' labels)],
                 ending = Finished\<rparr>)
         else
           \<lparr>state = s\<lparr>contract_data := dict_update (contract_data s) (form_data w),
                      step := ''generate''\<rparr>,
            shown = [], ending = Rerun\<rparr>)
      else \<lparr>state = s, shown = [], ending = Finished\<rparr>)"

section \<open>Contract generation\<close>

text \<open>The f-string of \<^verbatim>\<open>generate_contract\<close>, with the sixteen spaces that indent its lines.\<close>

definition prompt_of :: "(string \<rightharpoonup> pyval) \<Rightarrow> string" where
  "prompt_of d =
     [CHR 0x0A] @
     ''                Generate a legal contract based on the following information:'' @ [CHR 0x0A] @
     ''                '' @ [CHR 0x0A] @
     ''                PARTIES:'' @ [CHR 0x0A] @
     ''                - Party 1: '' @ py_str (dict_get d ''party1'') @ [CHR 0x0A] @
     ''                - Party 2: '' @ py_str (dict_get d ''party2'') @ [CHR 0x0A] @
     ''                '' @ [CHR 0x0A] @
     ''                TERMS:'' @ [CHR 0x0A] @
     ''                - Commodity: '' @ py_str (dict_get d ''commodity'') @ [CHR 0x0A] @
     ''                - Quantity: '' @ py_str (dict_get d ''quantity'') @ [CHR 0x0A] @
     ''                - Price: '' @ py_str (dict_get d ''price'') @ '' '' @
       py_str (dict_get d ''currency'') @ '' per unit'' @ [CHR 0x0A] @
     ''                - Template Style: '' @ py_str (dict_get d ''template'') @ [CHR 0x0A] @
     ''                '' @ [CHR 0x0A] @
     ''                Please generate a complete, professionally formatted, and legally binding contract.'' @ [CHR 0x0A] @
     ''                Include standard clauses for dispute resolution, termination, and force majeure.'' @ [CHR 0x0A] @
     ''                ''"

text \<open>
  The request sent to the completion API and what comes back: for each choice the
  \<^verbatim>\<open>message.content\<close>, a string or \<^verbatim>\<open>None\<close>.
\<close>

record chat_request =
  model :: string
  messages :: "(string \<times> string) list"
  max_tokens :: nat
  temperature :: pyfloat

record chat_response =
  choices :: "string option list"

text \<open>
  The objects that module-level names are bound to: an API client, whose
  \<^verbatim>\<open>chat.completions.create\<close> raises or returns a response, or anything else.
\<close>

datatype pyobj = Client "chat_request \<Rightarrow> py_exception + chat_response" | Other

text \<open>
  The names bound at module level by \<^verbatim>\<open>src/app.py\<close>: its imports, \<^verbatim>\<open>logger\<close>, the class
  and \<^verbatim>\<open>main\<close>. No statement binds \<^verbatim>\<open>client\<close>, and it is no builtin.
\<close>

definition module_globals :: "string \<rightharpoonup> pyobj" where
  "module_globals =
     map_of [(''st'', Other), (''os'', Other), (''json'', Other), (''io'', Other),
             (''Document'', Other), (''PdfReader'', Other), (''openai'', Other),
             (''load_dotenv'', Other), (''Optional'', Other), (''Dict'', Other),
             (''Any'', Other), (''logging'', Other), (''datetime'', Other),
             (''logger'', Other), (''ContractPlatform'', Other), (''main'', Other)]"

text \<open>\<^verbatim>\<open>str.strip()\<close>: white space is removed at both ends.\<close>

definition is_space :: "char \<Rightarrow> bool" where
  "is_space c = (of_char c \<in> set [9, 10, 11, 12, 13, 28, 29, 30, 31, 32, 133, 160 :: nat])"

definition strip :: "string \<Rightarrow> string" where
  "strip s = rev (dropWhile is_space (rev (dropWhile is_space s)))"

text \<open>
  The body of the \<^verbatim>\<open>try\<close> block up to the assignment of \<^verbatim>\<open>contract_text\<close>, under the
  module-level bindings \<open>G\<close>: the exception raised there, or the contract text.
\<close>

definition request_contract :: "(string \<rightharpoonup> pyobj) \<Rightarrow> (string \<rightharpoonup> pyval) \<Rightarrow> py_exception + string" where
  "request_contract G d =
     (let prompt = prompt_of d in
      case G ''client'' of
        None \<Rightarrow> Inl (Raised NameError (''name '' @ [CHR 0x27] @ ''client'' @ [CHR 0x27] @ '' is not defined''))
      | Some Other \<Rightarrow> Inl (Raised AttributeError ''object has no attribute chat'')
      | Some (Client create) \<Rightarrow>
          (case create
                  \<lparr>model = ''gpt-4'',
                   messages =
                     [(''system'',
                       ''You are a legal document generator specializing in commercial contracts.''),
                      (''user'', prompt)],
                   max_tokens = 2000,
                   temperature = PyFloat False 7 (- 1)\<rparr> of
             Inl e \<Rightarrow> Inl e
           | Inr response \<Rightarrow>
               (case choices response of
                  [] \<Rightarrow> Inl (Raised IndexError ''list index out of range'')
                | None # rest \<Rightarrow> Inl (Raised AttributeError ''NoneType object has no attribute strip'')
                | Some content # rest \<Rightarrow> Inr (strip content))))"

definition generic_error :: string where
  "generic_error =
     ''An error occurred while generating the contract. Please try again or contact support.''"

definition generate_contract :: "(string \<rightharpoonup> pyobj) \<Rightarrow> library \<Rightarrow> widgets \<Rightarrow> session \<Rightarrow> run" where
  "generate_contract G L w s =
     (if back_generate w then \<lparr>state = s\<lparr>step := ''form''\<rparr>, shown = [], ending = Rerun\<rparr>
      else
        (case request_contract G (contract_data s) of
           Inr contract_text \<Rightarrow>
             \<lparr>state = s,
              shown = [Markdown ''### Generated Contract'',
                       TextArea ''Contract Content'' contract_text,
                       DownloadButton contract_text (''contract_'' @ now_stamp L @ ''.txt'')
                         ''text/plain''],
              ending = Finished\<rparr>
         | Inl e \<Rightarrow>
             \<lparr>state = s,
              shown = [LogError (''Error generating contract: '' @ str_exc e),
                       Error generic_error],
              ending = Finished\<rparr>))"

section \<open>The script\<close>

text \<open>
  One run of \<^verbatim>\<open>main\<close>. \<open>steps\<close> holds the keys of the breadcrumb dictionary: the sidebar
  line subscripts it with the current step, which raises \<^verbatim>\<open>KeyError\<close> for any other
  string.
\<close>

definition steps :: "string list" where
  "steps = [''home'', ''upload'', ''form'', ''generate'']"

definition main :: "(string \<rightharpoonup> pyobj) \<Rightarrow> library \<Rightarrow> widgets \<Rightarrow> stored_session \<Rightarrow> run" where
  "main G L w st =
     (let s = init_session st in
      if step s \<notin> set steps
        then \<lparr>state = s, shown = [], ending = Uncaught (Raised KeyError (step s))\<rparr>
      else if step s = ''home'' then home w s
      else if step s = ''upload'' then upload_documents L w s
      else if step s = ''form'' then application_form w s
      else if step s = ''generate'' then generate_contract G L w s
      else \<lparr>state = s, shown = [], ending = Finished\<rparr>)"

text \<open>
  The session states the program can be in after a run: the first run starts from an
  empty \<^verbatim>\<open>st.session_state\<close>, every later one from what the run before left there. The
  widgets, the library results and the clock may differ from run to run.
\<close>

inductive reachable :: "session \<Rightarrow> bool" where
  first_run: "reachable (state (main G L w fresh_session))"
| next_run: "reachable s \<Longrightarrow> reachable (state (main G L w (store s)))"

section \<open>Sample inputs\<close>

text \<open>
  A concrete library for the examples: the bytes \<open>%PDF\<close> parse as a PDF of one page
  with the text \<open>Hello\<close>, the bytes \<open>PK\<close> as a document of two paragraphs, and any
  byte string below 128 decodes to the characters with those codes.
\<close>

definition sample_library :: library where
  "sample_library =
     \<lparr>PdfReader = (\<lambda>b. if b = [37, 80, 68, 70] then Inr [Inr ''Hello'']
                        else Inl (Raised LibraryError ''EOF marker not found'')),
      Document = (\<lambda>b. if b = [80, 75] then Inr [''Dear Sir'', ''Yours'']
                       else Inl (Raised LibraryError ''File is not a zip file'')),
      decode_utf8 = (\<lambda>b. if list_all (\<lambda>n. n < 128) b then Inr (map char_of b)
                          else Inl (Raised UnicodeDecodeError ''invalid start byte'')),
      now_stamp = ''20240101_120000''\<rparr>"

definition sample_pdf :: uploaded_file where
  "sample_pdf = \<lparr>file_bytes = [37, 80, 68, 70], file_type = ''application/pdf''\<rparr>"

definition sample_png :: uploaded_file where
  "sample_png = \<lparr>file_bytes = [137, 80, 78, 71], file_type = ''image/png''\<rparr>"

definition idle :: widgets where
  "idle =
     \<lparr>upload_btn = False, form_btn = False, back_upload = False, uploaded_file = None,
      continue_btn = False, back_form = False, party1 = [], party2 = [], commodity = [],
      quantity = 0, price = PyFloat False 0 0, currency = ''USD'', template = ''London'',
      submitted = False, back_generate = False\<rparr>"

definition filled :: widgets where
  "filled =
     idle\<lparr>party1 := ''Acme'', party2 := ''Globex'', commodity := ''Wheat'', quantity := 100,
          price := PyFloat False 5 0, submitted := True\<rparr>"

definition sample_data :: "string \<rightharpoonup> pyval" where
  "sample_data = dict_update Map.empty (form_data filled)"

definition at_step :: "string \<Rightarrow> session" where
  "at_step v = \<lparr>step = v, contract_data = sample_data, processing_status = PNone\<rparr>"

text \<open>A library whose decoder yields a text of 1001 characters.\<close>

definition long_library :: library where
  "long_library = sample_library\<lparr>decode_utf8 := (\<lambda>b. Inr (replicate 1001 (CHR ''a'')))\<rparr>"

definition sample_txt :: uploaded_file where
  "sample_txt = \<lparr>file_bytes = [97], file_type = ''text/plain''\<rparr>"

text \<open>Module-level bindings with a client whose API call fails, and one that answers.\<close>

definition failing_globals :: "string \<rightharpoonup> pyobj" where
  "failing_globals =
     module_globals(''client'' \<mapsto> Client (\<lambda>r. Inl (Raised LibraryError ''Connection error.'')))"

definition answering_globals :: "string \<rightharpoonup> pyobj" where
  "answering_globals =
     module_globals(''client'' \<mapsto> Client (\<lambda>r. Inr \<lparr>choices = [Some ''  AGREEMENT  '']\<rparr>))"

section \<open>Properties of text extraction\<close>

lemma pdf_pages_loop_all_pages:
  "pdf_pages_loop (map Inr ts) acc = Inr (acc @ concat (map (\<lambda>t. t @ [CHR 0x0A]) ts))"
  by (induction ts arbitrary: acc) simp_all

lemma terminated_is_join:
  "ts \<noteq> [] \<Longrightarrow> concat (map (\<lambda>t. t @ [CHR 0x0A]) ts) = join [CHR 0x0A] ts @ [CHR 0x0A]"
  by (induction "[CHR 0x0A]" ts rule: join.induct) simp_all

text \<open>
  C6, as the claim states it for PDF files, fails: for the one-page PDF of the sample
  library the result is the page's text followed by a newline, not the page texts joined
  with newline separators.
\<close>

theorem extract_pdf_not_join_counterexample:
  "PdfReader sample_library [37, 80, 68, 70] = Inr (map Inr [''Hello'']) \<and>
   snd (extract_text_from_pdf sample_library [37, 80, 68, 70]) \<noteq> Inr (join [CHR 0x0A] [''Hello''])"
  by (simp add: extract_text_from_pdf_def sample_library_def)

text \<open>
  C6 (amended): when the reader succeeds and every page yields its text, the PDF
  extractor returns every page's text followed by a newline, which is the newline-joined
  texts with one more newline at the end (and the empty string for no pages); when the
  document opens, the DOCX extractor returns the paragraph texts joined with newlines.
\<close>

theorem extract_text_concatenation:
  "(PdfReader L b = Inr (map Inr ts) \<longrightarrow>
      extract_text_from_pdf L b =
        ([], Inr (if ts = [] then [] else join [CHR 0x0A] ts @ [CHR 0x0A]))) \<and>
   (Document L d = Inr ps \<longrightarrow>
      extract_text_from_docx L d = ([], Inr (join [CHR 0x0A] ps)))"
  by (simp add: extract_text_from_pdf_def extract_text_from_docx_def
        pdf_pages_loop_all_pages terminated_is_join)

theorem extract_text_concatenation_witness:
  "PdfReader sample_library [37, 80, 68, 70] = Inr (map Inr [''Hello'']) \<and>
   extract_text_from_pdf sample_library [37, 80, 68, 70] = ([], Inr (''Hello'' @ [CHR 0x0A])) \<and>
   Document sample_library [80, 75] = Inr [''Dear Sir'', ''Yours''] \<and>
   extract_text_from_docx sample_library [80, 75] =
     ([], Inr (''Dear Sir'' @ [CHR 0x0A] @ ''Yours''))"
proof -
  have p: "PdfReader sample_library [37, 80, 68, 70] = Inr (map Inr [''Hello''])"
    by (simp add: sample_library_def)
  have d: "Document sample_library [80, 75] = Inr [''Dear Sir'', ''Yours'']"
    by (simp add: sample_library_def)
  from p d extract_text_concatenation [of sample_library "[37, 80, 68, 70]" "[''Hello'']"
      "[80, 75]" "[''Dear Sir'', ''Yours'']"]
  show ?thesis by simp
qed

section \<open>Unsupported file types\<close>

text \<open>
  C7: for an uploaded file whose declared MIME type is none of the four supported ones,
  \<open>process_uploaded_file\<close> shows the error message that names the type and returns
  \<open>None\<close>; the result is an ordinary value, so no exception leaves the function.
\<close>

theorem process_uploaded_file_unsupported:
  assumes "file_type f \<notin> {''application/pdf'', ''application/msword'',
             ''application/vnd.openxmlformats-officedocument.wordprocessingml.document'',
             ''text/plain''}"
  shows "process_uploaded_file L f =
           ([Error (''Error processing file: Unsupported file type: '' @ file_type f)], None)"
  using assms by (simp add: process_uploaded_file_def)

theorem process_uploaded_file_unsupported_witness:
  "file_type sample_png \<notin> {''application/pdf'', ''application/msword'',
      ''application/vnd.openxmlformats-officedocument.wordprocessingml.document'',
      ''text/plain''} \<and>
   process_uploaded_file sample_library sample_png =
     ([Error ''Error processing file: Unsupported file type: image/png''], None)"
  using process_uploaded_file_unsupported [of sample_png sample_library]
  by (simp add: sample_png_def)

section \<open>Form submission\<close>

lemma missing_fields_empty_iff:
  "missing_fields w = [] \<longleftrightarrow>
     party1 w \<noteq> [] \<and> party2 w \<noteq> [] \<and> commodity w \<noteq> [] \<and> quantity w \<noteq> 0 \<and>
     truthy (PFloat (price w))"
  by (simp add: missing_fields_def form_data_def required_fields_def)

lemma dict_getitems_required:
  "set ks \<subseteq> set (map fst required_fields) \<Longrightarrow>
   dict_getitems required_fields ks = Inr (map (\<lambda>k. the (map_of required_fields k)) ks)"
  by (induction ks) (auto simp: required_fields_def)

lemma missing_fields_required: "set (missing_fields w) \<subseteq> set (map fst required_fields)"
  by (auto simp: missing_fields_def intro: rev_image_eqI)

lemma missing_labels:
  "map (\<lambda>k. the (map_of required_fields k)) (missing_fields w) =
   map snd (filter (\<lambda>(v, label). \<not> truthy v)
     [(PStr (party1 w), ''Party 1 Name''),
      (PStr (party2 w), ''Party 2 Name''),
      (PStr (commodity w), ''Commodity Description''),
      (PInt (quantity w), ''Quantity''),
      (PFloat (price w), ''Price per unit'')])"
  by (simp add: missing_fields_def form_data_def required_fields_def)

text \<open>
  C1: a form submission (the submit button returns true, the back button does not) in
  which the five required fields are truthy stores the seven submitted values in
  \<open>contract_data\<close>, keeps every other key, sets the step to \<open>generate\<close> and reruns.
\<close>

theorem application_form_accepts:
  assumes "submitted w" and "\<not> back_form w"
    and "party1 w \<noteq> []" and "party2 w \<noteq> []" and "commodity w \<noteq> []"
    and "quantity w \<noteq> 0" and "truthy (PFloat (price w))"
  shows "step (state (application_form w s)) = ''generate'' \<and>
         contract_data (state (application_form w s)) =
           (contract_data s)
             (''party1'' \<mapsto> PStr (party1 w), ''party2'' \<mapsto> PStr (party2 w),
              ''commodity'' \<mapsto> PStr (commodity w), ''quantity'' \<mapsto> PInt (quantity w),
              ''price'' \<mapsto> PFloat (price w), ''currency'' \<mapsto> PStr (currency w),
              ''template'' \<mapsto> PStr (template w)) \<and>
         shown (application_form w s) = [] \<and>
         ending (application_form w s) = Rerun"
proof -
  have "missing_fields w = []"
    using assms by (simp add: missing_fields_empty_iff)
  then show ?thesis
    using assms(1,2) by (simp add: application_form_def dict_update_def form_data_def)
qed

theorem application_form_accepts_witness:
  "submitted filled \<and> \<not> back_form filled \<and>
   step (state (application_form filled (at_step ''form''))) = ''generate'' \<and>
   contract_data (state (application_form filled (at_step ''form''))) ''party1'' =
     Some (PStr ''Acme'') \<and>
   contract_data (state (application_form filled (at_step ''form''))) ''quantity'' =
     Some (PInt 100) \<and>
   contract_data (state (application_form filled (at_step ''form''))) ''price'' =
     Some (PFloat (PyFloat False 5 0))"
proof -
  have h: "submitted filled" "\<not> back_form filled" "party1 filled \<noteq> []" "party2 filled \<noteq> []"
    "commodity filled \<noteq> []" "quantity filled \<noteq> 0" "truthy (PFloat (price filled))"
    by (simp_all add: filled_def idle_def)
  from application_form_accepts [OF h, of "at_step ''form''"] h(1,2)
  show ?thesis by (simp add: filled_def idle_def)
qed

text \<open>
  C2: a form submission in which at least one of the five required fields is falsy is
  rejected: the only thing shown is the error message that lists, in the order of the
  form, the labels of exactly the required fields whose value is falsy; the session
  (step and \<open>contract_data\<close>) is what it was, and the run ends without a rerun.
\<close>

theorem application_form_rejects:
  assumes "submitted w" and "\<not> back_form w"
    and "party1 w = [] \<or> party2 w = [] \<or> commodity w = [] \<or> quantity w = 0 \<or>
         \<not> truthy (PFloat (price w))"
  shows "application_form w s =
           \<lparr>state = s,
            shown = [Error (''Please fill in all required fields: '' @
                       join '', ''
                         (map snd (filter (\<lambda>(v, label). \<not> truthy v)
                            [(PStr (party1 w), ''Party 1 Name''),
                             (PStr (party2 w), ''Party 2 Name''),
                             (PStr (commodity w), ''Commodity Description''),
                             (PInt (quantity w), ''Quantity''),
                             (PFloat (price w), ''Price per unit'')])))],
            ending = Finished\<rparr>"
proof -
  have "missing_fields w \<noteq> []"
    using assms(3) by (auto simp: missing_fields_empty_iff)
  moreover have "dict_getitems required_fields (missing_fields w) =
      Inr (map (\<lambda>k. the (map_of required_fields k)) (missing_fields w))"
    by (rule dict_getitems_required [OF missing_fields_required])
  ultimately show ?thesis
    using assms(1,2) by (simp add: application_form_def missing_labels)
qed

theorem application_form_rejects_witness:
  "submitted (filled\<lparr>party2 := [], quantity := 0\<rparr>) \<and>
   \<not> back_form (filled\<lparr>party2 := [], quantity := 0\<rparr>) \<and>
   application_form (filled\<lparr>party2 := [], quantity := 0\<rparr>) (at_step ''form'') =
     \<lparr>state = at_step ''form'',
      shown = [Error ''Please fill in all required fields: Party 2 Name, Quantity''],
      ending = Finished\<rparr>"
proof -
  have h: "submitted (filled\<lparr>party2 := [], quantity := 0\<rparr>)"
    "\<not> back_form (filled\<lparr>party2 := [], quantity := 0\<rparr>)"
    by (simp_all add: filled_def idle_def)
  have m: "party1 (filled\<lparr>party2 := [], quantity := 0\<rparr>) = [] \<or>
      party2 (filled\<lparr>party2 := [], quantity := 0\<rparr>) = [] \<or>
      commodity (filled\<lparr>party2 := [], quantity := 0\<rparr>) = [] \<or>
      quantity (filled\<lparr>party2 := [], quantity := 0\<rparr>) = 0 \<or>
      \<not> truthy (PFloat (price (filled\<lparr>party2 := [], quantity := 0\<rparr>)))"
    by (simp add: filled_def idle_def)
  from application_form_rejects [OF h m, of "at_step ''form''"] h
  show ?thesis by (simp add: filled_def idle_def)
qed

section \<open>Back navigation\<close>

text \<open>
  C4, as the claim states it, fails for the generate step: its back button sets the step
  to \<open>form\<close>, not to \<open>home\<close>.
\<close>

theorem back_generate_not_home_counterexample:
  "back_generate (idle\<lparr>back_generate := True\<rparr>) \<and>
   step (state (generate_contract module_globals sample_library
                  (idle\<lparr>back_generate := True\<rparr>) (at_step ''generate''))) \<noteq> ''home''"
  by (simp add: generate_contract_def idle_def at_step_def)

text \<open>
  C4 (amended): the back button of the upload step and of the form step sets the step to
  \<open>home\<close>, the back button of the generate step sets it to \<open>form\<close>; each of them leaves
  \<open>contract_data\<close> unchanged, shows nothing and reruns the script.
\<close>

theorem back_navigation:
  "(back_upload w \<longrightarrow>
      upload_documents L w s = \<lparr>state = s\<lparr>step := ''home''\<rparr>, shown = [], ending = Rerun\<rparr> \<and>
      contract_data (state (upload_documents L w s)) = contract_data s) \<and>
   (back_form w \<longrightarrow>
      application_form w s = \<lparr>state = s\<lparr>step := ''home''\<rparr>, shown = [], ending = Rerun\<rparr> \<and>
      contract_data (state (application_form w s)) = contract_data s) \<and>
   (back_generate w \<longrightarrow>
      generate_contract G L w s = \<lparr>state = s\<lparr>step := ''form''\<rparr>, shown = [], ending = Rerun\<rparr> \<and>
      contract_data (state (generate_contract G L w s)) = contract_data s)"
  by (simp add: upload_documents_def application_form_def generate_contract_def)

theorem back_navigation_witness:
  "back_upload (idle\<lparr>back_upload := True, back_form := True, back_generate := True\<rparr>) \<and>
   back_form (idle\<lparr>back_upload := True, back_form := True, back_generate := True\<rparr>) \<and>
   back_generate (idle\<lparr>back_upload := True, back_form := True, back_generate := True\<rparr>) \<and>
   step (state (upload_documents sample_library
     (idle\<lparr>back_upload := True, back_form := True, back_generate := True\<rparr>)
     (at_step ''upload''))) = ''home'' \<and>
   step (state (application_form
     (idle\<lparr>back_upload := True, back_form := True, back_generate := True\<rparr>)
     (at_step ''form''))) = ''home'' \<and>
   step (state (generate_contract module_globals sample_library
     (idle\<lparr>back_upload := True, back_form := True, back_generate := True\<rparr>)
     (at_step ''generate''))) = ''form'' \<and>
   contract_data (state (generate_contract module_globals sample_library
     (idle\<lparr>back_upload := True, back_form := True, back_generate := True\<rparr>)
     (at_step ''generate''))) = sample_data"
proof -
  have h: "back_upload (idle\<lparr>back_upload := True, back_form := True, back_generate := True\<rparr>)"
    "back_form (idle\<lparr>back_upload := True, back_form := True, back_generate := True\<rparr>)"
    "back_generate (idle\<lparr>back_upload := True, back_form := True, back_generate := True\<rparr>)"
    by simp_all
  from h
    back_navigation [of "idle\<lparr>back_upload := True, back_form := True, back_generate := True\<rparr>"
      sample_library "at_step ''upload''" module_globals]
    back_navigation [of "idle\<lparr>back_upload := True, back_form := True, back_generate := True\<rparr>"
      sample_library "at_step ''form''" module_globals]
    back_navigation [of "idle\<lparr>back_upload := True, back_form := True, back_generate := True\<rparr>"
      sample_library "at_step ''generate''" module_globals]
  show ?thesis by (simp add: at_step_def)
qed

section \<open>Contract generation\<close>

lemma client_unbound: "module_globals ''client'' = None"
  by (simp add: module_globals_def)

lemma request_contract_unbound:
  "request_contract module_globals d =
     Inl (Raised NameError (''name '' @ [CHR 0x27] @ ''client'' @ [CHR 0x27] @ '' is not defined''))"
  by (simp add: request_contract_def client_unbound)

text \<open>
  C3, as the claim states it, fails for the invocation in which the back button is
  clicked: \<^verbatim>\<open>st.rerun()\<close> stops the script before the \<^verbatim>\<open>try\<close> block, and no error
  message is shown.
\<close>

theorem generate_back_no_error_counterexample:
  "Error generic_error \<notin>
     set (shown (generate_contract module_globals sample_library
                   (idle\<lparr>back_generate := True\<rparr>) (at_step ''generate'')))"
  by (simp add: generate_contract_def idle_def)

text \<open>
  C3 (amended): under the module-level bindings of the program, where \<open>client\<close> is
  unbound, every invocation of \<open>generate_contract\<close> in which the back button is not
  clicked takes the exception branch: it logs the \<open>NameError\<close>, shows the generic error
  message and nothing else, and leaves the session as it was. No invocation at all
  reaches the success path: none shows the contract text area or the download button.
\<close>

theorem generate_contract_always_fails:
  "(\<not> back_generate w \<longrightarrow>
      generate_contract module_globals L w s =
        \<lparr>state = s,
         shown = [LogError (''Error generating contract: name '' @ [CHR 0x27] @ ''client'' @
                    [CHR 0x27] @ '' is not defined''),
                  Error generic_error],
         ending = Finished\<rparr>) \<and>
   TextArea ''Contract Content'' t \<notin> set (shown (generate_contract module_globals L w s)) \<and>
   DownloadButton t n m \<notin> set (shown (generate_contract module_globals L w s))"
  by (simp add: generate_contract_def request_contract_unbound)

theorem generate_contract_always_fails_witness:
  "\<not> back_generate idle \<and>
   shown (generate_contract module_globals sample_library idle (at_step ''generate'')) =
     [LogError (''Error generating contract: name '' @ [CHR 0x27] @ ''client'' @
        [CHR 0x27] @ '' is not defined''),
      Error generic_error] \<and>
   state (generate_contract module_globals sample_library idle (at_step ''generate'')) =
     at_step ''generate''"
proof -
  have h: "\<not> back_generate idle"
    by (simp add: idle_def)
  from h generate_contract_always_fails [of idle sample_library "at_step ''generate''"]
  show ?thesis by simp
qed

text \<open>
  C8: whatever the module-level bindings are, when the body of the \<^verbatim>\<open>try\<close> block raises
  an exception (the name lookup, the API call or the reading of the response),
  \<open>generate_contract\<close> logs it, shows the generic error message and returns normally;
  the session is unchanged, so a step \<open>generate\<close> stays \<open>generate\<close> and \<open>contract_data\<close>
  is what it was.
\<close>

theorem generate_contract_catches:
  assumes "\<not> back_generate w" and "request_contract G (contract_data s) = Inl e"
  shows "generate_contract G L w s =
           \<lparr>state = s,
            shown = [LogError (''Error generating contract: '' @ str_exc e),
                     Error generic_error],
            ending = Finished\<rparr> \<and>
         (step s = ''generate'' \<longrightarrow> step (state (generate_contract G L w s)) = ''generate'') \<and>
         contract_data (state (generate_contract G L w s)) = contract_data s"
  using assms by (simp add: generate_contract_def)

theorem generate_contract_catches_witness:
  "\<not> back_generate idle \<and>
   request_contract failing_globals (contract_data (at_step ''generate'')) =
     Inl (Raised LibraryError ''Connection error.'') \<and>
   generate_contract failing_globals sample_library idle (at_step ''generate'') =
     \<lparr>state = at_step ''generate'',
      shown = [LogError ''Error generating contract: Connection error.'', Error generic_error],
      ending = Finished\<rparr>"
proof -
  have h: "\<not> back_generate idle"
    by (simp add: idle_def)
  have r: "request_contract failing_globals (contract_data (at_step ''generate'')) =
      Inl (Raised LibraryError ''Connection error.'')"
    by (simp add: request_contract_def failing_globals_def)
  from h r generate_contract_catches [OF h r, of sample_library]
  show ?thesis by simp
qed

lemma answering_succeeds:
  "shown (generate_contract answering_globals sample_library idle (at_step ''generate'')) =
     [Markdown ''### Generated Contract'', TextArea ''Contract Content'' ''AGREEMENT'',
      DownloadButton ''AGREEMENT'' ''contract_20240101_120000.txt'' ''text/plain'']"
  by (simp add: generate_contract_def request_contract_def answering_globals_def idle_def
        sample_library_def strip_def is_space_def)

section \<open>Upload preview\<close>

lemma long_text_processed:
  "process_uploaded_file long_library sample_txt = ([], Some (replicate 1001 (CHR ''a'')))"
  by (simp add: process_uploaded_file_def long_library_def sample_txt_def)

text \<open>
  C10, as the claim states it, fails: for an extracted text of 1001 characters the
  preview is not the first 1000 characters of the text, since three dots follow them.
\<close>

theorem preview_not_truncation_counterexample:
  "process_uploaded_file long_library sample_txt = ([], Some (replicate 1001 (CHR ''a''))) \<and>
   shown (upload_documents long_library (idle\<lparr>uploaded_file := Some sample_txt\<rparr>)
            (at_step ''upload'')) =
     [Success ''File processed successfully!'',
      TextArea ''Extracted Content'' (replicate 1000 (CHR ''a'') @ ''...'')] \<and>
   replicate 1000 (CHR ''a'') @ ''...'' \<noteq> take 1000 (replicate 1001 (CHR ''a''))"
  by (simp add: long_text_processed upload_documents_def idle_def preview_def)

text \<open>
  C10 (amended): in the upload step, when the back button is not clicked and the
  processing of the uploaded file returns a non-empty text, the preview shown is the
  first 1000 characters of the text followed by three dots when the text is longer than
  1000 characters, and the full text otherwise; the full text is stored in
  \<open>contract_data\<close> under \<open>extracted_text\<close>, the other keys being kept.
\<close>

theorem upload_preview_and_store:
  assumes "\<not> back_upload w" and "uploaded_file w = Some f"
    and "process_uploaded_file L f = (evs, Some text)" and "text \<noteq> []"
  shows "shown (upload_documents L w s) =
           evs @ [Success ''File processed successfully!'',
                  TextArea ''Extracted Content''
                    (if length text > 1000 then take 1000 text @ ''...'' else text)] \<and>
         contract_data (state (upload_documents L w s)) =
           (contract_data s)(''extracted_text'' \<mapsto> PStr text)"
  using assms by (simp add: upload_documents_def preview_def Let_def)

theorem upload_preview_and_store_witness:
  "\<not> back_upload (idle\<lparr>uploaded_file := Some sample_pdf\<rparr>) \<and>
   uploaded_file (idle\<lparr>uploaded_file := Some sample_pdf\<rparr>) = Some sample_pdf \<and>
   process_uploaded_file sample_library sample_pdf = ([], Some (''Hello'' @ [CHR 0x0A])) \<and>
   shown (upload_documents sample_library (idle\<lparr>uploaded_file := Some sample_pdf\<rparr>)
            (at_step ''upload'')) =
     [Success ''File processed successfully!'',
      TextArea ''Extracted Content'' (''Hello'' @ [CHR 0x0A])] \<and>
   contract_data (state (upload_documents sample_library
            (idle\<lparr>uploaded_file := Some sample_pdf\<rparr>) (at_step ''upload''))) ''extracted_text'' =
     Some (PStr (''Hello'' @ [CHR 0x0A]))"
proof -
  have b: "\<not> back_upload (idle\<lparr>uploaded_file := Some sample_pdf\<rparr>)"
    by (simp add: idle_def)
  have u: "uploaded_file (idle\<lparr>uploaded_file := Some sample_pdf\<rparr>) = Some sample_pdf"
    by simp
  have p: "process_uploaded_file sample_library sample_pdf = ([], Some (''Hello'' @ [CHR 0x0A]))"
    by (simp add: process_uploaded_file_def sample_pdf_def sample_library_def
          extract_text_from_pdf_def)
  have n: "''Hello'' @ [CHR 0x0A] \<noteq> []"
    by simp
  from b u p upload_preview_and_store [OF b u p n, of "at_step ''upload''"]
  show ?thesis by simp
qed

section \<open>The step invariant\<close>

lemma init_store: "init_session (store s) = s"
  by (simp add: init_session_def store_def)

lemma home_step: "step (state (home w s)) \<in> {step s, ''upload'', ''form''}"
  by (simp add: home_def)

lemma upload_documents_step:
  "step (state (upload_documents L w s)) \<in> {step s, ''home'', ''form''}"
  by (auto simp: upload_documents_def Let_def split: option.splits prod.splits)

lemma application_form_step:
  "step (state (application_form w s)) \<in> {step s, ''home'', ''generate''}"
  by (auto simp: application_form_def split: sum.splits)

lemma generate_contract_step:
  "step (state (generate_contract G L w s)) \<in> {step s, ''form''}"
  by (auto simp: generate_contract_def split: sum.splits)

lemma main_step:
  assumes "step (init_session st) \<in> {''home'', ''upload'', ''form'', ''generate''}"
  shows "step (state (main G L w st)) \<in> {''home'', ''upload'', ''form'', ''generate''}"
proof -
  let ?s = "init_session st"
  consider (h) "step ?s = ''home''" | (u) "step ?s = ''upload''"
    | (f) "step ?s = ''form''" | (g) "step ?s = ''generate''"
    using assms by auto
  then show ?thesis
  proof cases
    case h
    with home_step [of w ?s] show ?thesis
      by (auto simp: main_def steps_def Let_def)
  next
    case u
    with upload_documents_step [of L w ?s] show ?thesis
      by (auto simp: main_def steps_def Let_def)
  next
    case f
    with application_form_step [of w ?s] show ?thesis
      by (auto simp: main_def steps_def Let_def)
  next
    case g
    with generate_contract_step [of G L w ?s] show ?thesis
      by (auto simp: main_def steps_def Let_def)
  qed
qed

lemma fresh_step: "step (init_session fresh_session) = ''home''"
  by (simp add: init_session_def fresh_session_def)

text \<open>
  C9: after \<^verbatim>\<open>__init__\<close> on an empty session the step is \<open>home\<close>, and after every run of
  the script that the program can reach from there, whatever the widgets returned in it,
  the step is one of \<open>home\<close>, \<open>upload\<close>, \<open>form\<close> and \<open>generate\<close>.
\<close>

theorem step_invariant:
  "step (init_session fresh_session) \<in> {''home'', ''upload'', ''form'', ''generate''} \<and>
   (reachable s \<longrightarrow> step s \<in> {''home'', ''upload'', ''form'', ''generate''})"
proof
  show "step (init_session fresh_session) \<in> {''home'', ''upload'', ''form'', ''generate''}"
    by (simp add: fresh_step)
  show "reachable s \<longrightarrow> step s \<in> {''home'', ''upload'', ''form'', ''generate''}"
  proof
    assume "reachable s"
    then show "step s \<in> {''home'', ''upload'', ''form'', ''generate''}"
    proof (induction rule: reachable.induct)
      case (first_run G L w)
      show ?case
        by (rule main_step) (simp add: fresh_step)
    next
      case (next_run s G L w)
      then show ?case
        by (intro main_step) (simp add: init_store)
    qed
  qed
qed

theorem step_invariant_witness:
  "reachable (state (main module_globals sample_library (idle\<lparr>form_btn := True\<rparr>) fresh_session)) \<and>
   step (state (main module_globals sample_library (idle\<lparr>form_btn := True\<rparr>) fresh_session)) =
     ''form'' \<and>
   step (state (main module_globals sample_library (idle\<lparr>form_btn := True\<rparr>) fresh_session))
     \<in> {''home'', ''upload'', ''form'', ''generate''}"
proof -
  have r: "reachable
      (state (main module_globals sample_library (idle\<lparr>form_btn := True\<rparr>) fresh_session))"
    by (rule reachable.first_run)
  have v: "step (state (main module_globals sample_library (idle\<lparr>form_btn := True\<rparr>)
      fresh_session)) = ''form''"
    by (simp add: main_def steps_def Let_def fresh_step home_def idle_def)
  from r v step_invariant
    [of "state (main module_globals sample_library (idle\<lparr>form_btn := True\<rparr>) fresh_session)"]
  show ?thesis by blast
qed

section \<open>The prompt\<close>

lemma str_int_100: "str_int 100 = ''100''"
  by (simp add: str_int_def digit_char_def)

lemma float_repr_5: "float_repr (PyFloat False 5 0) = ''5.0''"
  by (simp add: float_repr_def digit_char_def)

lemma occurs_in_middle: "s = pre @ x @ post \<Longrightarrow> \<exists>p q. s = p @ x @ q"
  by blast

text \<open>
  C5: for \<open>contract_data\<close> with \<open>party1\<close> \<^verbatim>\<open>"Acme"\<close>, \<open>party2\<close> \<^verbatim>\<open>"Globex"\<close>, \<open>commodity\<close>
  \<^verbatim>\<open>"Wheat"\<close>, \<open>quantity\<close> the integer 100 and \<open>price\<close> the float 5.0, whatever the other
  keys hold, each of \<^verbatim>\<open>Party 1: Acme\<close>, \<^verbatim>\<open>Party 2: Globex\<close>, \<^verbatim>\<open>Commodity: Wheat\<close>,
  \<^verbatim>\<open>Quantity: 100\<close> and \<^verbatim>\<open>Price: 5.0\<close> occurs in the prompt as a contiguous substring.
\<close>

theorem prompt_contains_fields:
  assumes "d ''party1'' = Some (PStr ''Acme'')"
    and "d ''party2'' = Some (PStr ''Globex'')"
    and "d ''commodity'' = Some (PStr ''Wheat'')"
    and "d ''quantity'' = Some (PInt 100)"
    and "d ''price'' = Some (PFloat (PyFloat False 5 0))"
  shows "(\<exists>p q. prompt_of d = p @ ''Party 1: Acme'' @ q) \<and>
         (\<exists>p q. prompt_of d = p @ ''Party 2: Globex'' @ q) \<and>
         (\<exists>p q. prompt_of d = p @ ''Commodity: Wheat'' @ q) \<and>
         (\<exists>p q. prompt_of d = p @ ''Quantity: 100'' @ q) \<and>
         (\<exists>p q. prompt_of d = p @ ''Price: 5.0'' @ q)"
proof -
  have v: "py_str (dict_get d ''party1'') = ''Acme''"
    "py_str (dict_get d ''party2'') = ''Globex''"
    "py_str (dict_get d ''commodity'') = ''Wheat''"
    "py_str (dict_get d ''quantity'') = ''100''"
    "py_str (dict_get d ''price'') = ''5.0''"
    using assms by (simp_all add: dict_get_def str_int_100 float_repr_5)
  define A where "A =
    [CHR 0x0A] @
    ''                Generate a legal contract based on the following information:'' @ [CHR 0x0A] @
    ''                '' @ [CHR 0x0A] @
    ''                PARTIES:'' @ [CHR 0x0A] @
    ''                - ''"
  define B where "B = [CHR 0x0A] @ ''                - ''"
  define C where "C =
    [CHR 0x0A] @
    ''                '' @ [CHR 0x0A] @
    ''                TERMS:'' @ [CHR 0x0A] @
    ''                - ''"
  define F where "F =
    '' '' @ py_str (dict_get d ''currency'') @ '' per unit'' @ [CHR 0x0A] @
    ''                - Template Style: '' @ py_str (dict_get d ''template'') @ [CHR 0x0A] @
    ''                '' @ [CHR 0x0A] @
    ''                Please generate a complete, professionally formatted, and legally binding contract.'' @ [CHR 0x0A] @
    ''                Include standard clauses for dispute resolution, termination, and force majeure.'' @ [CHR 0x0A] @
    ''                ''"
  have shape: "prompt_of d =
      A @ ''Party 1: Acme'' @ B @ ''Party 2: Globex'' @ C @ ''Commodity: Wheat'' @ B @
      ''Quantity: 100'' @ B @ ''Price: 5.0'' @ F"
    using v by (simp add: prompt_of_def A_def B_def C_def F_def)
  have s1: "prompt_of d = A @ ''Party 1: Acme'' @
      (B @ ''Party 2: Globex'' @ C @ ''Commodity: Wheat'' @ B @ ''Quantity: 100'' @ B @
       ''Price: 5.0'' @ F)"
    unfolding shape by simp
  have s2: "prompt_of d = (A @ ''Party 1: Acme'' @ B) @ ''Party 2: Globex'' @
      (C @ ''Commodity: Wheat'' @ B @ ''Quantity: 100'' @ B @ ''Price: 5.0'' @ F)"
    unfolding shape by simp
  have s3: "prompt_of d = (A @ ''Party 1: Acme'' @ B @ ''Party 2: Globex'' @ C) @
      ''Commodity: Wheat'' @ (B @ ''Quantity: 100'' @ B @ ''Price: 5.0'' @ F)"
    unfolding shape by simp
  have s4: "prompt_of d =
      (A @ ''Party 1: Acme'' @ B @ ''Party 2: Globex'' @ C @ ''Commodity: Wheat'' @ B) @
      ''Quantity: 100'' @ (B @ ''Price: 5.0'' @ F)"
    unfolding shape by simp
  have s5: "prompt_of d =
      (A @ ''Party 1: Acme'' @ B @ ''Party 2: Globex'' @ C @ ''Commodity: Wheat'' @ B @
       ''Quantity: 100'' @ B) @ ''Price: 5.0'' @ F"
    unfolding shape by simp
  show ?thesis
    by (intro conjI occurs_in_middle [OF s1] occurs_in_middle [OF s2] occurs_in_middle [OF s3]
          occurs_in_middle [OF s4] occurs_in_middle [OF s5])
qed

lemma sample_data_values:
  "sample_data ''party1'' = Some (PStr ''Acme'')"
  "sample_data ''party2'' = Some (PStr ''Globex'')"
  "sample_data ''commodity'' = Some (PStr ''Wheat'')"
  "sample_data ''quantity'' = Some (PInt 100)"
  "sample_data ''price'' = Some (PFloat (PyFloat False 5 0))"
  by (simp_all add: sample_data_def dict_update_def form_data_def filled_def idle_def)

theorem prompt_contains_fields_witness:
  "sample_data ''party1'' = Some (PStr ''Acme'') \<and>
   sample_data ''party2'' = Some (PStr ''Globex'') \<and>
   sample_data ''commodity'' = Some (PStr ''Wheat'') \<and>
   sample_data ''quantity'' = Some (PInt 100) \<and>
   sample_data ''price'' = Some (PFloat (PyFloat False 5 0)) \<and>
   (\<exists>p q. prompt_of sample_data = p @ ''Party 1: Acme'' @ q) \<and>
   (\<exists>p q. prompt_of sample_data = p @ ''Party 2: Globex'' @ q) \<and>
   (\<exists>p q. prompt_of sample_data = p @ ''Commodity: Wheat'' @ q) \<and>
   (\<exists>p q. prompt_of sample_data = p @ ''Quantity: 100'' @ q) \<and>
   (\<exists>p q. prompt_of sample_data = p @ ''Price: 5.0'' @ q)"
  using sample_data_values prompt_contains_fields [OF sample_data_values]
  by simp

end
